theory Spec2Isabelle
  imports Complex_Main "HOL-Library.Word"
begin

section \<open>ARCSI sensor abstraction (arcsilib/arcsisensor.py)\<close>

text \<open>
  The sensor-independent algorithms of \<^verbatim>\<open>ARCSIAbstractSensor\<close> are embedded as HOL
  functions. A Python float is an IEEE binary64 number; a finite one is modelled by the
  real number it denotes, and every arithmetic operation gives the exact result rounded
  to the nearest binary64 number (\<open>fadd\<close>, \<open>fsub\<close>, \<open>fmul\<close>, \<open>fdiv\<close> below). A float
  that may be NaN is a \<open>real option\<close> with \<open>None\<close> for NaN. The external collaborators
  (coordinate transformation, the 6S solver, the raster engine, scipy's
  \<^verbatim>\<open>griddata\<close>) are parameters of the functions that call them. Every Python exception
  is a value of \<open>error\<close>.
\<close>

datatype error =
    ARCSIException string
  | ZeroDivisionError
  | AttributeError

subsection \<open>Python floats\<close>

text \<open>
  \<^verbatim>\<open>round(x)\<close> of Python 3 with one argument: the nearest integer, a tie going to the
  even one. The same rule rounds a significand.
\<close>

definition py_round :: "real \<Rightarrow> int" where
  "py_round x =
     (let f = \<lfloor>x\<rfloor>; r = x - of_int f
      in if r < 1/2 then f else if 1/2 < r then f + 1 else if even f then f else f + 1)"

text \<open>
  The unit in the last place of a positive number: the power of two \<open>u\<close> for which
  \<open>x / u\<close> lies between \<open>2^52 = 4503599627370496\<close> (included) and
  \<open>2^53 = 9007199254740992\<close> (excluded), found by halving or doubling. The exponent
  is not bounded: overflow to infinity and the loss of precision of subnormal numbers
  (magnitudes above about \<open>1.8 * 10^308\<close> or below about \<open>2.2 * 10^-308\<close>) are not
  modelled.
\<close>

function ulp_down :: "real \<Rightarrow> real" where
  "ulp_down x = (if 9007199254740992 \<le> x then 2 * ulp_down (x / 2) else 1)"
  by pat_completeness auto
termination
proof (relation "measure (\<lambda>x. nat \<lceil>x\<rceil>)")
  show "wf (measure (\<lambda>x. nat \<lceil>x\<rceil>))" by simp
next
  fix x :: real
  assume a: "9007199254740992 \<le> x"
  have "x / 2 \<le> x - 1" using a by simp
  then have "\<lceil>x / 2\<rceil> \<le> \<lceil>x - 1\<rceil>" by (rule ceiling_mono)
  then have "\<lceil>x / 2\<rceil> < \<lceil>x\<rceil>" by simp
  moreover have "0 < \<lceil>x\<rceil>" using a by (simp add: ceiling_less_iff less_ceiling_iff)
  ultimately show "(x / 2, x) \<in> measure (\<lambda>x. nat \<lceil>x\<rceil>)" by simp
qed

function ulp_up :: "real \<Rightarrow> real" where
  "ulp_up x = (if 0 < x \<and> x < 4503599627370496 then ulp_up (2 * x) / 2 else 1)"
  by pat_completeness auto
termination
proof (relation "measure (\<lambda>x. nat \<lceil>9007199254740992 / x\<rceil>)")
  show "wf (measure (\<lambda>x. nat \<lceil>9007199254740992 / x\<rceil>))" by simp
next
  fix x :: real
  assume a: "0 < x \<and> x < 4503599627370496"
  define y where "y = 9007199254740992 / x"
  have y2: "2 < y" using a by (simp add: y_def field_simps)
  have "9007199254740992 / (2 * x) = y / 2" by (simp add: y_def)
  moreover have "y / 2 \<le> y - 1" using y2 by simp
  then have "\<lceil>y / 2\<rceil> \<le> \<lceil>y - 1\<rceil>" by (rule ceiling_mono)
  then have "\<lceil>y / 2\<rceil> < \<lceil>y\<rceil>" by simp
  moreover have "0 < \<lceil>y\<rceil>" using y2 by (simp add: less_ceiling_iff)
  ultimately show "(2 * x, x) \<in> measure (\<lambda>x. nat \<lceil>9007199254740992 / x\<rceil>)"
    by (simp add: y_def)
qed

declare ulp_down.simps [simp del] ulp_up.simps [simp del]

definition ulp :: "real \<Rightarrow> real" where
  "ulp x = (if 4503599627370496 \<le> x then ulp_down x else ulp_up x)"

text \<open>Rounding to the nearest binary64 number, ties to the even significand.\<close>

definition rnd :: "real \<Rightarrow> real" where
  "rnd x = (if x = 0 then 0 else let u = ulp \<bar>x\<bar> in of_int (py_round (x / u)) * u)"

text \<open>A real number is a float when rounding leaves it unchanged.\<close>

definition is_float :: "real \<Rightarrow> bool" where
  "is_float x = (rnd x = x)"

text \<open>
  A decimal literal of the source, such as \<^verbatim>\<open>0.05\<close>, and the float made from a Python
  integer are the nearest binary64 numbers. A float argument of a function below is meant
  to be such a number: the Python value \<^verbatim>\<open>12.2\<close> is \<open>py_float (122/10)\<close>, not \<open>122/10\<close>.
\<close>

definition py_float :: "real \<Rightarrow> real" where
  "py_float x = rnd x"

definition float_of_int :: "int \<Rightarrow> real" where
  "float_of_int n = rnd (of_int n)"

definition fadd :: "real \<Rightarrow> real \<Rightarrow> real" where
  "fadd x y = rnd (x + y)"

definition fsub :: "real \<Rightarrow> real \<Rightarrow> real" where
  "fsub x y = rnd (x - y)"

definition fmul :: "real \<Rightarrow> real \<Rightarrow> real" where
  "fmul x y = rnd (x * y)"

definition fdiv :: "real \<Rightarrow> real \<Rightarrow> real" where
  "fdiv x y = rnd (x / y)"

text \<open>Python's \<^verbatim>\<open>a / b\<close> on floats raises \<^verbatim>\<open>ZeroDivisionError\<close> when \<open>b\<close> is zero.\<close>

definition py_div :: "real \<Rightarrow> real \<Rightarrow> error + real" where
  "py_div a b = (if b = 0 then Inl ZeroDivisionError else Inr (fdiv a b))"

subsection \<open>Sensor state\<close>

record datetime =
  year :: nat
  month :: nat
  day :: nat

record sensor_state =
  sensor :: string
  acquisitionTime :: datetime
  latCentre :: real
  lonCentre :: real
  inWKT :: string
  xTL :: real
  yTL :: real
  xBR :: real
  yBR :: real

subsection \<open>getReProjBBOX\<close>

text \<open>
  \<^verbatim>\<open>osr.SpatialReference\<close> objects are the text they were imported from;
  \<^verbatim>\<open>ARCSIUtils.readTextFile\<close> and the OGR point transformation
  (\<^verbatim>\<open>AssignSpatialReference\<close> followed by \<^verbatim>\<open>TransformTo\<close>) are parameters.
  A corner is written into the text \<^verbatim>\<open>POINT(x y)\<close> and read back by OGR; this is
  taken to give the same coordinates. The returned dictionary is a map from its four
  keys. \<^verbatim>\<open>math.floor\<close> and \<^verbatim>\<open>math.ceil\<close> return integers, which the multiplication
  turns into floats again.
\<close>

datatype spatial_ref = ImportFromWkt string | ImportFromProj4 string

type_synonym bbox = "string \<rightharpoonup> real"

definition getReProjBBOX ::
  "(string \<Rightarrow> string) \<Rightarrow> (spatial_ref \<Rightarrow> spatial_ref \<Rightarrow> real \<times> real \<Rightarrow> real \<times> real) \<Rightarrow>
   sensor_state \<Rightarrow> string \<Rightarrow> string \<Rightarrow> bool \<Rightarrow> real \<Rightarrow> real \<Rightarrow> bool \<Rightarrow> error + bbox" where
  "getReProjBBOX readTextFile transformTo self wktFile proj4File useWKT2Reproject
       xPxlRes yPxlRes snap2Grid =
    (let projImgBBOX = [''MinX'' \<mapsto> 0, ''MaxX'' \<mapsto> 0, ''MinY'' \<mapsto> 0, ''MaxY'' \<mapsto> 0];
         yPxlResAbs = \<bar>yPxlRes\<bar>;
         srcProj = ImportFromWkt (inWKT self);
         tarProj = (if useWKT2Reproject then ImportFromWkt (readTextFile wktFile)
                    else ImportFromProj4 (readTextFile proj4File));
         point = transformTo srcProj tarProj (xTL self, yTL self)
     in case py_div (fst point) xPxlRes of Inl e \<Rightarrow> Inl e | Inr qx \<Rightarrow>
        (let minXPt = fmul (float_of_int \<lfloor>qx\<rfloor>) xPxlRes
         in case py_div (snd point) yPxlResAbs of Inl e \<Rightarrow> Inl e | Inr qy \<Rightarrow>
        (let maxYPt = fmul (float_of_int \<lceil>qy\<rceil>) yPxlResAbs;
             projImgBBOX = projImgBBOX(''MinX'' \<mapsto> minXPt);
             projImgBBOX = projImgBBOX(''MaxY'' \<mapsto> maxYPt);
             point = transformTo srcProj tarProj (xBR self, yBR self)
         in case py_div (fst point) xPxlRes of Inl e \<Rightarrow> Inl e | Inr qx \<Rightarrow>
        (let maxXPt = fmul (float_of_int \<lceil>qx\<rceil>) xPxlRes
         in case py_div (snd point) yPxlResAbs of Inl e \<Rightarrow> Inl e | Inr qy \<Rightarrow>
        (let minYPt = fmul (float_of_int \<lfloor>qy\<rfloor>) yPxlResAbs;
             projImgBBOX = projImgBBOX(''MaxX'' \<mapsto> maxXPt);
             projImgBBOX = projImgBBOX(''MinY'' \<mapsto> minYPt)
         in Inr projImgBBOX)))))"

text \<open>The target reference the two corners are transformed to.\<close>

definition tarProj_of :: "(string \<Rightarrow> string) \<Rightarrow> string \<Rightarrow> string \<Rightarrow> bool \<Rightarrow> spatial_ref" where
  "tarProj_of readTextFile wktFile proj4File useWKT2Reproject =
     (if useWKT2Reproject then ImportFromWkt (readTextFile wktFile)
      else ImportFromProj4 (readTextFile proj4File))"

text \<open>
  Fixtures: the identity transformation, a file system of empty files, a scene with
  integer corners and a scene whose corners are the floats \<^verbatim>\<open>0.3\<close> and \<^verbatim>\<open>0.7\<close>.
\<close>

definition no_files :: "string \<Rightarrow> string" where
  "no_files path = []"

definition same_crs :: "spatial_ref \<Rightarrow> spatial_ref \<Rightarrow> real \<times> real \<Rightarrow> real \<times> real" where
  "same_crs src tar p = p"

definition scene_100_95 :: sensor_state where
  "scene_100_95 = \<lparr> sensor = ''LS1MSS'',
      acquisitionTime = \<lparr> year = 2001, month = 6, day = 15 \<rparr>,
      latCentre = 19/2, lonCentre = - (139/2), inWKT = [],
      xTL = 100, yTL = 95, xBR = 200, yBR = 5 \<rparr>"

definition scene_tenths :: sensor_state where
  "scene_tenths = \<lparr> sensor = ''LS1MSS'',
      acquisitionTime = \<lparr> year = 2001, month = 6, day = 15 \<rparr>,
      latCentre = 19/2, lonCentre = - (139/2), inWKT = [],
      xTL = py_float (3/10), yTL = py_float (7/10),
      xBR = py_float (7/10), yBR = py_float (3/10) \<rparr>"

subsection \<open>buildElevation6SCoeffLUT and buildElevationAOT6SCoeffLUT\<close>

text \<open>
  \<^verbatim>\<open>calc6SCoefficients\<close> is the abstract solver call; its arguments other than the
  surface altitude and the AOT value are the same at every call and are left out. Each
  loop carries, besides the source's variables, the list of (altitude, AOT) pairs the
  solver has been called with. A \<^verbatim>\<open>for i in range(n)\<close> loop runs \<open>nat n\<close> times.
  The namedtuple field \<^verbatim>\<open>Coeffs\<close> of \<^verbatim>\<open>AOTLUTFeat\<close> is the selector \<open>AOTCoeffs\<close>.
\<close>

datatype 'c ElevLUTFeat = ElevLUTFeat (Elev: real) (Coeffs: 'c)

type_synonym solver_calls = "(real \<times> real) list"

fun elev_loop ::
  "(real \<Rightarrow> real \<Rightarrow> 'c) \<Rightarrow> real \<Rightarrow> nat \<Rightarrow> real \<times> 'c ElevLUTFeat list \<times> solver_calls \<Rightarrow>
   real \<times> 'c ElevLUTFeat list \<times> solver_calls" where
  "elev_loop calc6SCoefficients aotVal 0 s = s"
| "elev_loop calc6SCoefficients aotVal (Suc n) (elevVal, lut, calls) =
     elev_loop calc6SCoefficients aotVal n
       (fadd elevVal 100,
        lut @ [ElevLUTFeat elevVal (calc6SCoefficients (fdiv elevVal 1000) aotVal)],
        calls @ [(fdiv elevVal 1000, aotVal)])"

definition buildElevation6SCoeffLUT ::
  "(real \<Rightarrow> real \<Rightarrow> 'c) \<Rightarrow> real \<Rightarrow> real \<Rightarrow> real \<Rightarrow> 'c ElevLUTFeat list \<times> solver_calls" where
  "buildElevation6SCoeffLUT calc6SCoefficients aotVal surfaceAltitudeMin surfaceAltitudeMax =
     (let elevRange = fdiv (fsub surfaceAltitudeMax surfaceAltitudeMin) 100;
          numElevSteps = \<lceil>elevRange\<rceil> + 1;
          elevVal = surfaceAltitudeMin
      in snd (elev_loop calc6SCoefficients aotVal (nat numElevSteps) (elevVal, [], [])))"




text \<open>
  The elevation after \<open>i\<close> passes of the outer loop, the AOT value after \<open>j\<close> passes of
  the inner loop, and the inner sequence built for one elevation, in closed form.
\<close>

definition elev_at :: "real \<Rightarrow> nat \<Rightarrow> real" where
  "elev_at surfaceAltitudeMin i = ((\<lambda>elevVal. fadd elevVal 100) ^^ i) surfaceAltitudeMin"



text \<open>A fixture: a solver that returns its own arguments.\<close>

definition toy_solver :: "real \<Rightarrow> real \<Rightarrow> real \<times> real" where
  "toy_solver surfaceAltitude aotVal = (surfaceAltitude, aotVal)"

subsection \<open>Dark object subtraction\<close>

text \<open>
  The band-math expression of \<^verbatim>\<open>performDOSOnSingleBand\<close>,
  \<^verbatim>\<open>(TOA==0)?0:((TOA-Off)+d)<=0?1.0:(TOA-Off)+d\<close> with \<open>d = str(dosOutRefl)\<close>,
  as a function of one pixel of the TOA band and the pixel of the offset image at the
  same place. The conditional operator is right associative and binds weakest; the
  expression is evaluated in floats, and the text \<^verbatim>\<open>str(dosOutRefl)\<close> is taken to be
  read back as the float \<open>dosOutRefl\<close>.
\<close>

definition performDOSOnSingleBand_expr :: "real \<Rightarrow> real \<Rightarrow> real \<Rightarrow> real" where
  "performDOSOnSingleBand_expr TOA Off dosOutRefl =
     (if TOA = 0 then 0
      else if fadd (fsub TOA Off) dosOutRefl \<le> 0 then 1.0
      else fadd (fsub TOA Off) dosOutRefl)"

text \<open>\<^verbatim>\<open>performLocalDOSOnSingleBand\<close> builds the same expression text.\<close>

definition performLocalDOSOnSingleBand_expr :: "real \<Rightarrow> real \<Rightarrow> real \<Rightarrow> real" where
  "performLocalDOSOnSingleBand_expr TOA Off dosOutRefl =
     (if TOA = 0 then 0
      else if fadd (fsub TOA Off) dosOutRefl \<le> 0 then 1.0
      else fadd (fsub TOA Off) dosOutRefl)"

text \<open>
  \<^verbatim>\<open>rsgislib.imagecalc.bandMath\<close> with two band definitions and the output type
  \<^verbatim>\<open>rsgislib.TYPE_16UINT\<close>: the value of the expression at every pixel, converted to a
  16 bit unsigned integer. The conversion is done by the raster engine and is the
  parameter \<open>toUInt16\<close>.
\<close>

definition bandMath2 ::
  "(real \<Rightarrow> 16 word) \<Rightarrow> (real \<Rightarrow> real \<Rightarrow> real) \<Rightarrow> real list \<Rightarrow> real list \<Rightarrow> 16 word list" where
  "bandMath2 toUInt16 expression band1 band2 =
     map (\<lambda>(v1, v2). toUInt16 (expression v1 v2)) (zip band1 band2)"

definition performDOSOnSingleBand ::
  "(real \<Rightarrow> 16 word) \<Rightarrow> real list \<Rightarrow> real list \<Rightarrow> real \<Rightarrow> 16 word list" where
  "performDOSOnSingleBand toUInt16 offsetImage inputTOAImage dosOutRefl =
     bandMath2 toUInt16 (\<lambda>Off TOA. performDOSOnSingleBand_expr TOA Off dosOutRefl)
       offsetImage inputTOAImage"

definition performLocalDOSOnSingleBand ::
  "(real \<Rightarrow> 16 word) \<Rightarrow> real list \<Rightarrow> real list \<Rightarrow> real \<Rightarrow> 16 word list" where
  "performLocalDOSOnSingleBand toUInt16 offsetImage inputTOAImage dosOutRefl =
     bandMath2 toUInt16 (\<lambda>Off TOA. performLocalDOSOnSingleBand_expr TOA Off dosOutRefl)
       offsetImage inputTOAImage"

text \<open>A fixture: a conversion that rounds to the nearest integer and saturates.\<close>

definition round_saturate_uint16 :: "real \<Rightarrow> 16 word" where
  "round_saturate_uint16 v = word_of_int (max 0 (min 65535 \<lfloor>v + 1/2\<rfloor>))"

subsection \<open>The AOT candidate search of estimateSingleAOTFromDOSBandImpl\<close>

text \<open>
  The second step of \<^verbatim>\<open>estimateSingleAOTFromDOSBandImpl\<close>, the search over AOT
  candidates. The first step reads the radiance, the DOS reflectance and the elevation of
  the darkest object from rasters; with these fixed, \<^verbatim>\<open>run6SToOptimiseAODValue\<close> is a
  function of the candidate AOT alone, and is a parameter here.
\<close>

definition numAOTValTests :: "real \<Rightarrow> real \<Rightarrow> int" where
  "numAOTValTests aotValMin aotValMax =
     \<lceil>fdiv (fsub aotValMax aotValMin) (py_float 0.05)\<rceil> + 1"

text \<open>Candidate \<open>j\<close>: \<^verbatim>\<open>aotValMin + (0.05 * j)\<close>.\<close>

definition aot_candidate :: "real \<Rightarrow> nat \<Rightarrow> real" where
  "aot_candidate aotValMin j = fadd aotValMin (fmul (py_float 0.05) (float_of_int (int j)))"

record aot_search =
  cAOT :: real
  cDist :: real
  minAOT :: real
  minDist :: real

definition aot_search_step :: "(real \<Rightarrow> real) \<Rightarrow> real \<Rightarrow> nat \<Rightarrow> aot_search \<Rightarrow> aot_search" where
  "aot_search_step run6SToOptimiseAODValue aotValMin j s =
     (let s = s\<lparr>cAOT := aot_candidate aotValMin j\<rparr>;
          s = s\<lparr>cDist := run6SToOptimiseAODValue (cAOT s)\<rparr>
      in if j = 0 then s\<lparr>minAOT := cAOT s, minDist := cDist s\<rparr>
         else if cDist s < minDist s then s\<lparr>minAOT := cAOT s, minDist := cDist s\<rparr>
         else s)"

definition estimateSingleAOTFromDOSBandImpl :: "(real \<Rightarrow> real) \<Rightarrow> real \<Rightarrow> real \<Rightarrow> error + real" where
  "estimateSingleAOTFromDOSBandImpl run6SToOptimiseAODValue aotValMin aotValMax =
     (let numAOTValTests = numAOTValTests aotValMin aotValMax
      in if \<not> numAOTValTests \<ge> 1
         then Inl (ARCSIException
           ''min and max AOT range are too close together, they need to be at least 0.05 apart.'')
         else Inr (minAOT (fold (aot_search_step run6SToOptimiseAODValue aotValMin)
                       [0..<nat numAOTValTests]
                       \<lparr>cAOT = aotValMin, cDist = 0, minAOT = 0, minDist = 0\<rparr>)))"

text \<open>
  Fixtures: an objective with the same value everywhere, one with its minimum at the
  float \<^verbatim>\<open>0.2\<close>, and a decreasing one.
\<close>

definition flat_objective :: "real \<Rightarrow> real" where
  "flat_objective aot = 1"

definition vee_objective :: "real \<Rightarrow> real" where
  "vee_objective aot = \<bar>aot - py_float (2/10)\<bar>"

definition falling_objective :: "real \<Rightarrow> real" where
  "falling_objective aot = 1 - aot"

subsection \<open>The retry loop of calcDarkTargetOffsetsForBand\<close>

text \<open>
  The \<^verbatim>\<open>while findTargets\<close> loop of \<^verbatim>\<open>calcDarkTargetOffsetsForBand\<close>. The histogram
  \<^verbatim>\<open>bandHist[0]\<close> is the list of its bin counts; a count and a sum of counts are
  integers far below \<open>2^53\<close>, so that adding them is exact. Everything between the
  threshold and the size of the \<^verbatim>\<open>Histogram\<close> column (band maths, clumping, removal of
  small clumps, relabelling, statistics) is done by the raster engine on fixed inputs;
  it is the parameter \<open>darkObjsHistogramSize\<close>, a function of the threshold.
\<close>

fun threshold_walk :: "real \<Rightarrow> real \<Rightarrow> nat list \<Rightarrow> real \<times> real \<Rightarrow> real \<times> real" where
  "threshold_walk numPxlThreshold histBinWidth [] (pxlThreshold, pxlCount) =
     (pxlThreshold, pxlCount)"
| "threshold_walk numPxlThreshold histBinWidth (bin # bins) (pxlThreshold, pxlCount) =
     (if pxlCount + real bin < numPxlThreshold
      then threshold_walk numPxlThreshold histBinWidth bins
             (fadd pxlThreshold histBinWidth, pxlCount + real bin)
      else (pxlThreshold, pxlCount + real bin))"

definition darkPxlThreshold :: "nat list \<Rightarrow> real \<Rightarrow> real \<Rightarrow> real" where
  "darkPxlThreshold bandHist histBinWidth darkPxlPercentile =
     (let sumPxls = real (sum_list bandHist);
          numPxlThreshold = fmul sumPxls darkPxlPercentile
      in fst (threshold_walk numPxlThreshold histBinWidth bandHist (0, 0)))"

text \<open>
  The loop returns the percentile and the threshold it stops with; \<open>None\<close> stands for a
  loop that never stops.
\<close>

partial_function (option) calcDarkTargetOffsetsForBand_findTargets ::
  "(real \<Rightarrow> nat) \<Rightarrow> nat list \<Rightarrow> real \<Rightarrow> real \<Rightarrow> (real \<times> real) option" where
  "calcDarkTargetOffsetsForBand_findTargets darkObjsHistogramSize bandHist histBinWidth
       darkPxlPercentile =
     (if darkObjsHistogramSize (darkPxlThreshold bandHist histBinWidth darkPxlPercentile) > 10
      then Some (darkPxlPercentile, darkPxlThreshold bandHist histBinWidth darkPxlPercentile)
      else calcDarkTargetOffsetsForBand_findTargets darkObjsHistogramSize bandHist histBinWidth
             (fmul darkPxlPercentile 2))"

text \<open>The percentile after \<open>k\<close> doublings.\<close>

definition doubled :: "nat \<Rightarrow> real \<Rightarrow> real" where
  "doubled k darkPxlPercentile = ((\<lambda>p. fmul p 2) ^^ k) darkPxlPercentile"

text \<open>
  Fixtures: a band whose dark pixels form one object at every threshold (the table has
  the background row and one object row), a band with eleven objects from threshold 3
  on, and one with ten objects at threshold 1 only.
\<close>

definition one_dark_object :: "real \<Rightarrow> nat" where
  "one_dark_object pxlThreshold = 2"

definition objects_from_3 :: "real \<Rightarrow> nat" where
  "objects_from_3 pxlThreshold = (if 3 \<le> pxlThreshold then 12 else 2)"

definition objects_at_1 :: "real \<Rightarrow> nat" where
  "objects_at_1 pxlThreshold = (if pxlThreshold = 1 then 11 else 2)"

subsection \<open>defaultGenBaseOutFileName\<close>

text \<open>
  Strings of numbers, as Python 3 prints them. \<^verbatim>\<open>round(x)\<close> with one argument is
  \<open>py_round\<close>; \<^verbatim>\<open>round(x, 2)\<close> returns a float, which is modelled by its number of
  hundredths. \<^verbatim>\<open>str\<close> of such a float (below
  \<open>10^16\<close> in magnitude) is its shortest decimal form with at least one digit after the
  point.
\<close>

definition digit_char :: "nat \<Rightarrow> char" where
  "digit_char n = ''0123456789'' ! (n mod 10)"

fun str_nat :: "nat \<Rightarrow> string" where
  "str_nat n = (if n < 10 then [digit_char n] else str_nat (n div 10) @ [digit_char (n mod 10)])"

declare str_nat.simps [simp del]

definition str_int :: "int \<Rightarrow> string" where
  "str_int i = (if i < 0 then CHR ''-'' # str_nat (nat (- i)) else str_nat (nat i))"

definition py_round2 :: "real \<Rightarrow> int" where
  "py_round2 x = py_round (x * 100)"

definition str_hundredths :: "int \<Rightarrow> string" where
  "str_hundredths h =
     (let a = nat \<bar>h\<bar>; ip = a div 100; fp = a mod 100
      in (if h < 0 then ''-'' else [])
         @ str_nat ip @ ''.''
         @ (if fp mod 10 = 0 then [digit_char (fp div 10)]
            else [digit_char (fp div 10), digit_char (fp mod 10)]))"

text \<open>\<^verbatim>\<open>s.replace(c, '')\<close> for a one-character \<open>c\<close>.\<close>

definition replace_by_empty :: "char \<Rightarrow> string \<Rightarrow> string" where
  "replace_by_empty c s = filter (\<lambda>x. x \<noteq> c) s"

text \<open>\<^verbatim>\<open>strftime("%Y%m%d")\<close>: the year on four digits, month and day on two.\<close>

definition zfill :: "nat \<Rightarrow> string \<Rightarrow> string" where
  "zfill w s = replicate (w - length s) CHR ''0'' @ s"

definition strftime_Ymd :: "datetime \<Rightarrow> string" where
  "strftime_Ymd d = zfill 4 (str_nat (year d)) @ zfill 2 (str_nat (month d)) @ zfill 2 (str_nat (day d))"

definition defaultGenBaseOutFileName :: "sensor_state \<Rightarrow> string" where
  "defaultGenBaseOutFileName self =
     (let date = strftime_Ymd (acquisitionTime self);
          pos = ''lat''
              @ replace_by_empty CHR ''-'' (replace_by_empty CHR ''.''
                  (str_int (py_round (latCentre self))))
              @ ''lon''
              @ replace_by_empty CHR ''-'' (replace_by_empty CHR ''.''
                  (str_hundredths (py_round2 (lonCentre self))));
          outname = sensor self @ ''_'' @ date @ ''_'' @ pos
      in outname)"

text \<open>
  The position token as the specification words it: both coordinates rounded to two
  decimal places, then sign and decimal point stripped.
\<close>

definition spec_position_token :: "real \<Rightarrow> real \<Rightarrow> string" where
  "spec_position_token lat lon =
     ''lat'' @ replace_by_empty CHR ''-'' (replace_by_empty CHR ''.'' (str_hundredths (py_round2 lat)))
     @ ''lon'' @ replace_by_empty CHR ''-'' (replace_by_empty CHR ''.'' (str_hundredths (py_round2 lon)))"

subsection \<open>interpolateImageFromPointData\<close>









section \<open>Theorems\<close>

subsection \<open>Rounding\<close>

lemma ulp_down_pos: "0 < ulp_down x"
proof (induction x rule: ulp_down.induct)
  case (1 x)
  show ?case
  proof (cases "9007199254740992 \<le> x")
    case True
    with 1 have "0 < ulp_down (x / 2)" by simp
    with True show ?thesis by (subst ulp_down.simps) simp
  next
    case False
    then show ?thesis by (subst ulp_down.simps) simp
  qed
qed

lemma ulp_up_pos: "0 < ulp_up x"
proof (induction x rule: ulp_up.induct)
  case (1 x)
  show ?case
  proof (cases "0 < x \<and> x < 4503599627370496")
    case True
    with 1 have "0 < ulp_up (2 * x)" by simp
    with True show ?thesis by (subst ulp_up.simps) simp
  next
    case False
    then show ?thesis by (subst ulp_up.simps) auto
  qed
qed

lemma ulp_pos: "0 < ulp x"
  by (simp add: ulp_def ulp_down_pos ulp_up_pos)

lemma py_round_nonneg: "0 \<le> x \<Longrightarrow> 0 \<le> py_round x"
  by (auto simp add: py_round_def Let_def)

lemma py_round_nonpos: "x \<le> 0 \<Longrightarrow> py_round x \<le> 0"
proof -
  assume a: "x \<le> 0"
  show ?thesis
  proof (cases "x = 0")
    case True then show ?thesis by (simp add: py_round_def)
  next
    case False
    with a have "x < 0" by simp
    then have f: "\<lfloor>x\<rfloor> \<le> - 1" by (simp add: floor_le_iff)
    then show ?thesis by (auto simp add: py_round_def Let_def)
  qed
qed

lemma rnd_nonneg: "0 \<le> x \<Longrightarrow> 0 \<le> rnd x"
  using ulp_pos [of "\<bar>x\<bar>"] py_round_nonneg [of "x / ulp \<bar>x\<bar>"]
  by (simp add: rnd_def Let_def)

lemma rnd_nonpos: "x \<le> 0 \<Longrightarrow> rnd x \<le> 0"
  using ulp_pos [of "\<bar>x\<bar>"] py_round_nonpos [of "x / ulp \<bar>x\<bar>"]
  by (simp add: rnd_def Let_def mult_le_0_iff divide_le_0_iff)

lemma py_round_of_int: "py_round (of_int n) = n"
  by (simp add: py_round_def)

lemma py_round_bounds: "\<lfloor>x\<rfloor> \<le> py_round x \<and> py_round x \<le> \<lfloor>x\<rfloor> + 1"
  by (simp add: py_round_def Let_def)

lemma py_round_mono:
  assumes "x \<le> y"
  shows "py_round x \<le> py_round y"
proof (cases "\<lfloor>x\<rfloor> = \<lfloor>y\<rfloor>")
  case True
  have "x - of_int \<lfloor>x\<rfloor> \<le> y - of_int \<lfloor>y\<rfloor>" using assms True by simp
  then show ?thesis using True by (auto simp add: py_round_def Let_def)
next
  case False
  with assms have "\<lfloor>x\<rfloor> < \<lfloor>y\<rfloor>" using floor_mono [OF assms] by simp
  then have "\<lfloor>x\<rfloor> + 1 \<le> \<lfloor>y\<rfloor>" by simp
  with py_round_bounds [of x] py_round_bounds [of y] show ?thesis by linarith
qed

lemma py_round_minus: "py_round (- x) = - py_round x"
proof (cases "x \<in> \<int>")
  case True
  then obtain n where "x = of_int n" by (auto elim: Ints_cases)
  then have "py_round (- x) = py_round (of_int (- n))" by simp
  also have "\<dots> = - n" by (rule py_round_of_int)
  finally show ?thesis using \<open>x = of_int n\<close> by (simp add: py_round_of_int)
next
  case False
  then have "x \<noteq> of_int \<lfloor>x\<rfloor>" by (metis Ints_of_int)
  then have fl: "\<lfloor>- x\<rfloor> = - \<lfloor>x\<rfloor> - 1"
    by (simp add: floor_minus ceiling_altdef)
  define f where "f = \<lfloor>x\<rfloor>"
  define r where "r = x - of_int f"
  have r': "- x - of_int (- f - 1) = 1 - r" by (simp add: r_def)
  have ev: "even (- f - 1) \<longleftrightarrow> odd f" by simp
  show ?thesis
    unfolding py_round_def Let_def fl f_def [symmetric] r' r_def [symmetric] ev
    by (auto simp add: not_less)
qed

text \<open>
  The unit in the last place is a power of two, and scales a positive number into the
  range of a 53 bit significand.
\<close>

lemma ulp_down_spec:
  "4503599627370496 \<le> x \<Longrightarrow>
   (\<exists>k::int. ulp_down x = 2 powi k) \<and> 4503599627370496 * ulp_down x \<le> x
     \<and> x < 9007199254740992 * ulp_down x"
proof (induction x rule: ulp_down.induct)
  case (1 x)
  show ?case
  proof (cases "9007199254740992 \<le> x")
    case True
    then have h: "4503599627370496 \<le> x / 2" by simp
    from 1(1) [OF True h] obtain k :: int where k: "ulp_down (x / 2) = 2 powi k"
      and lo: "4503599627370496 * ulp_down (x / 2) \<le> x / 2"
      and hi: "x / 2 < 9007199254740992 * ulp_down (x / 2)" by blast
    have u: "ulp_down x = 2 * ulp_down (x / 2)" using True by (subst ulp_down.simps) simp
    have "ulp_down x = 2 powi (k + 1)" unfolding u k by (simp add: power_int_add)
    then have "\<exists>k::int. ulp_down x = 2 powi k" by blast
    then show ?thesis using lo hi unfolding u by simp
  next
    case False
    have u: "ulp_down x = 1" using False by (subst ulp_down.simps) simp
    have "ulp_down x = 2 powi (0::int)" unfolding u by simp
    then have "\<exists>k::int. ulp_down x = 2 powi k" by blast
    then show ?thesis using False 1(2) unfolding u by simp
  qed
qed

lemma ulp_up_spec:
  "0 < x \<Longrightarrow> x < 9007199254740992 \<Longrightarrow>
   (\<exists>k::int. ulp_up x = 2 powi k) \<and> 4503599627370496 * ulp_up x \<le> x
     \<and> x < 9007199254740992 * ulp_up x"
proof (induction x rule: ulp_up.induct)
  case (1 x)
  show ?case
  proof (cases "0 < x \<and> x < 4503599627370496")
    case True
    then have h: "0 < 2 * x" "2 * x < 9007199254740992" by simp_all
    from 1(1) [OF True h] obtain k :: int where k: "ulp_up (2 * x) = 2 powi k"
      and lo: "4503599627370496 * ulp_up (2 * x) \<le> 2 * x"
      and hi: "2 * x < 9007199254740992 * ulp_up (2 * x)" by blast
    have u: "ulp_up x = ulp_up (2 * x) / 2" using True by (subst ulp_up.simps) simp
    have "ulp_up x = 2 powi (k - 1)" unfolding u k by (simp add: power_int_diff)
    then have "\<exists>k::int. ulp_up x = 2 powi k" by blast
    then show ?thesis using lo hi unfolding u by simp
  next
    case False
    have u: "ulp_up x = 1" using False by (subst ulp_up.simps) auto
    have "ulp_up x = 2 powi (0::int)" unfolding u by simp
    then have "\<exists>k::int. ulp_up x = 2 powi k" by blast
    then show ?thesis using False 1(2,3) unfolding u by simp
  qed
qed

lemma ulp_spec:
  assumes "0 < x"
  shows "(\<exists>k::int. ulp x = 2 powi k) \<and> 4503599627370496 * ulp x \<le> x
     \<and> x < 9007199254740992 * ulp x"
proof (cases "4503599627370496 \<le> x")
  case True
  then show ?thesis using ulp_down_spec [OF True] by (simp add: ulp_def)
next
  case False
  then have "x < 9007199254740992" by simp
  from ulp_up_spec [OF assms this] show ?thesis using False by (simp add: ulp_def)
qed

text \<open>Rounding is monotone and commutes with negation.\<close>

lemma rnd_mono_pos:
  assumes "0 < x" and "x \<le> y"
  shows "rnd x \<le> rnd y"
proof -
  have y0: "0 < y" using assms by simp
  from ulp_spec [OF assms(1)] obtain a :: int where a: "ulp x = 2 powi a"
    and xlo: "4503599627370496 * ulp x \<le> x" and xhi: "x < 9007199254740992 * ulp x" by blast
  from ulp_spec [OF y0] obtain b :: int where b: "ulp y = 2 powi b"
    and ylo: "4503599627370496 * ulp y \<le> y" and yhi: "y < 9007199254740992 * ulp y" by blast
  have ux: "0 < ulp x" and uy: "0 < ulp y" by (rule ulp_pos)+
  have rx: "rnd x = of_int (py_round (x / ulp x)) * ulp x"
    and ry: "rnd y = of_int (py_round (y / ulp y)) * ulp y"
    using assms(1) y0 by (simp_all add: rnd_def Let_def)
  consider "a = b" | "a < b" | "b < a" by linarith
  then show ?thesis
  proof cases
    case 1
    then have e: "ulp x = ulp y" using a b by simp
    have "x / ulp y \<le> y / ulp y" using assms(2) uy by (simp add: divide_right_mono)
    then have "py_round (x / ulp y) \<le> py_round (y / ulp y)" by (rule py_round_mono)
    then show ?thesis unfolding rx ry e using uy by simp
  next
    case 2
    then have "a + 1 \<le> b" by simp
    then have "(2::real) powi (a + 1) \<le> 2 powi b" by (intro power_int_increasing) simp_all
    then have d: "2 * ulp x \<le> ulp y" unfolding a b by (simp add: power_int_add)
    have "x / ulp x \<le> 9007199254740992" using xhi ux by (simp add: field_simps)
    then have "py_round (x / ulp x) \<le> py_round (of_int 9007199254740992)"
      by (intro py_round_mono) simp
    then have "py_round (x / ulp x) \<le> 9007199254740992" by (simp only: py_round_of_int)
    then have "real_of_int (py_round (x / ulp x)) \<le> 9007199254740992" by linarith
    then have "rnd x \<le> 9007199254740992 * ulp x" unfolding rx using ux by simp
    also have "\<dots> \<le> 4503599627370496 * ulp y" using d by simp
    also have "\<dots> \<le> rnd y"
    proof -
      have "4503599627370496 \<le> y / ulp y" using ylo uy by (simp add: field_simps)
      then have "py_round (of_int 4503599627370496) \<le> py_round (y / ulp y)"
        by (intro py_round_mono) simp
      then have "4503599627370496 \<le> py_round (y / ulp y)" by (simp only: py_round_of_int)
      then have "4503599627370496 \<le> real_of_int (py_round (y / ulp y))" by linarith
      then show ?thesis unfolding ry using uy by simp
    qed
    finally show ?thesis .
  next
    case 3
    then have "b + 1 \<le> a" by simp
    then have "(2::real) powi (b + 1) \<le> 2 powi a" by (intro power_int_increasing) simp_all
    then have d: "2 * ulp y \<le> ulp x" unfolding a b by (simp add: power_int_add)
    have "y < 9007199254740992 * ulp y" by (rule yhi)
    also have "\<dots> \<le> 4503599627370496 * ulp x" using d by simp
    also have "\<dots> \<le> x" by (rule xlo)
    finally show ?thesis using assms(2) by simp
  qed
qed

lemma rnd_minus: "rnd (- x) = - rnd x"
  by (simp add: rnd_def Let_def py_round_minus)

lemma rnd_mono:
  assumes "x \<le> y"
  shows "rnd x \<le> rnd y"
proof -
  consider "0 < x" | "x \<le> 0" "0 \<le> y" | "y < 0" using assms by linarith
  then show ?thesis
  proof cases
    case 1
    then show ?thesis using assms by (rule rnd_mono_pos)
  next
    case 2
    then show ?thesis using rnd_nonpos [of x] rnd_nonneg [of y] by linarith
  next
    case 3
    then have "0 < - y" "- y \<le> - x" using assms by simp_all
    then have "rnd (- y) \<le> rnd (- x)" by (rule rnd_mono_pos)
    then show ?thesis by (simp add: rnd_minus)
  qed
qed

text \<open>The values of the floats that the examples below use.\<close>

lemmas float_eval =
  py_float_def float_of_int_def fadd_def fsub_def fmul_def fdiv_def
  rnd_def ulp_def ulp_up.simps ulp_down.simps py_round_def Let_def

subsection \<open>getReProjBBOX\<close>

lemma getReProjBBOX_Inr:
  assumes "xPxlRes \<noteq> 0" and "yPxlRes \<noteq> 0"
  shows "getReProjBBOX readTextFile transformTo self wktFile proj4File useWKT2Reproject
           xPxlRes yPxlRes snap2Grid =
         (let tarProj = tarProj_of readTextFile wktFile proj4File useWKT2Reproject;
              cTL = transformTo (ImportFromWkt (inWKT self)) tarProj (xTL self, yTL self);
              cBR = transformTo (ImportFromWkt (inWKT self)) tarProj (xBR self, yBR self)
          in Inr [''MinX'' \<mapsto> fmul (float_of_int \<lfloor>fdiv (fst cTL) xPxlRes\<rfloor>) xPxlRes,
                  ''MaxX'' \<mapsto> fmul (float_of_int \<lceil>fdiv (fst cBR) xPxlRes\<rceil>) xPxlRes,
                  ''MinY'' \<mapsto> fmul (float_of_int \<lfloor>fdiv (snd cBR) \<bar>yPxlRes\<bar>\<rfloor>) \<bar>yPxlRes\<bar>,
                  ''MaxY'' \<mapsto> fmul (float_of_int \<lceil>fdiv (snd cTL) \<bar>yPxlRes\<bar>\<rceil>) \<bar>yPxlRes\<bar>])"
  using assms
  by (auto simp add: getReProjBBOX_def tarProj_of_def py_div_def Let_def fun_eq_iff)





text \<open>
  The quotient is a float quotient: the float \<^verbatim>\<open>0.3\<close> divided by the float \<^verbatim>\<open>0.1\<close>
  is \<^verbatim>\<open>2.9999999999999996\<close>, so that a corner at \<^verbatim>\<open>0.3\<close> is snapped down to the float
  \<^verbatim>\<open>0.2\<close>; \<^verbatim>\<open>0.7\<close> divided by \<^verbatim>\<open>0.1\<close> is \<^verbatim>\<open>6.999999999999999\<close>, and a corner at
  \<^verbatim>\<open>0.7\<close> is snapped up to 7 times \<^verbatim>\<open>0.1\<close>, which is \<^verbatim>\<open>0.7000000000000001\<close>.
\<close>

lemma getReProjBBOX_float_quotient:
  "\<exists>b. getReProjBBOX no_files same_crs scene_tenths [] [] True
          (py_float (1/10)) (- py_float (1/10)) False = Inr b
       \<and> b ''MinX'' = Some (py_float (2/10)) \<and> b ''MinY'' = Some (py_float (2/10))
       \<and> b ''MaxX'' = Some (6305039478318695 / 9007199254740992)
       \<and> b ''MaxY'' = Some (6305039478318695 / 9007199254740992)"
proof -
  define r :: real where "r = py_float (1/10)"
  define c3 :: real where "c3 = py_float (3/10)"
  define c7 :: real where "c7 = py_float (7/10)"
  have r: "r = 3602879701896397 / 36028797018963968"
    and c3: "c3 = 5404319552844595 / 18014398509481984"
    and c7: "c7 = 3152519739159347 / 4503599627370496"
    and c2: "py_float (2/10) = 3602879701896397 / 18014398509481984"
    unfolding r_def c3_def c7_def by (simp_all add: float_eval)
  have q: "\<lfloor>fdiv c3 r\<rfloor> = 2" "\<lceil>fdiv c7 r\<rceil> = 7"
    unfolding r c3 c7 by (simp_all add: float_eval)
  have m: "fmul (float_of_int 2) r = 3602879701896397 / 18014398509481984"
    "fmul (float_of_int 7) r = 6305039478318695 / 9007199254740992"
    unfolding r by (simp_all add: float_eval)
  have nz: "r \<noteq> 0" "- r \<noteq> 0" unfolding r by simp_all
  have a: "\<bar>r\<bar> = r" unfolding r by simp
  have s: "scene_tenths = \<lparr> sensor = ''LS1MSS'',
      acquisitionTime = \<lparr> year = 2001, month = 6, day = 15 \<rparr>,
      latCentre = 19/2, lonCentre = - (139/2), inWKT = [],
      xTL = c3, yTL = c7, xBR = c7, yBR = c3 \<rparr>"
    unfolding scene_tenths_def c3_def c7_def by (rule refl)
  show ?thesis
    unfolding r_def [symmetric] getReProjBBOX_Inr [OF nz] Let_def c2 s
    by (simp add: same_crs_def a q m)
qed

text \<open>
  Claim C10. The result of \<open>getReProjBBOX\<close> does not depend on \<open>snap2Grid\<close>: two calls
  that differ only in that argument return the same dictionary (or the same error).
\<close>

theorem getReProjBBOX_ignores_snap2Grid:
  "getReProjBBOX readTextFile transformTo self wktFile proj4File useWKT2Reproject
      xPxlRes yPxlRes snap2Grid
   = getReProjBBOX readTextFile transformTo self wktFile proj4File useWKT2Reproject
      xPxlRes yPxlRes snap2Grid'"
  by (simp add: getReProjBBOX_def)

subsection \<open>The 6S coefficient look-up tables\<close>

lemma elev_at_shift: "elev_at (fadd e 100) i = elev_at e (Suc i)"
  using funpow_swap1 [of "\<lambda>elevVal. fadd elevVal 100" i e] by (simp add: elev_at_def)


lemma elev_at_simps: "elev_at e 0 = e" "elev_at e (Suc i) = fadd (elev_at e i) 100"
  by (simp_all add: elev_at_def)


lemma elev_loop_eq:
  "elev_loop calc a n (e, lut, calls) =
     (elev_at e n,
      lut @ map (\<lambda>i. ElevLUTFeat (elev_at e i) (calc (fdiv (elev_at e i) 1000) a)) [0..<n],
      calls @ map (\<lambda>i. (fdiv (elev_at e i) 1000, a)) [0..<n])"
proof (induction n arbitrary: e lut calls)
  case 0
  show ?case by (simp add: elev_at_simps)
next
  case (Suc n)
  show ?case
    unfolding elev_loop.simps Suc.IH map_upt_Suc elev_at_shift
    by (simp add: elev_at_simps(1))
qed



text \<open>The float quotient of a nonnegative range is nonnegative, and so is its ceiling.\<close>

lemma float_range_nonneg:
  assumes "lo \<le> hi" and "0 \<le> d"
  shows "0 \<le> \<lceil>fdiv (fsub hi lo) d\<rceil>"
proof -
  have "0 \<le> fsub hi lo" unfolding fsub_def using assms(1) by (intro rnd_nonneg) simp
  then have "0 \<le> fsub hi lo / d" using assms(2) by simp
  then have "0 \<le> fdiv (fsub hi lo) d" unfolding fdiv_def by (rule rnd_nonneg)
  then show ?thesis by (simp add: le_ceiling_iff)
qed


lemma numSteps_nat:
  assumes "(lo::real) \<le> hi" and "0 < d"
  shows "hi \<le> lo + d * real (nat \<lceil>(hi - lo) / d\<rceil>)"
proof -
  have nonneg: "0 \<le> (hi - lo) / d" using assms by simp
  then have c0: "0 \<le> \<lceil>(hi - lo) / d\<rceil>" by (simp add: ceiling_le_iff le_ceiling_iff)
  have "(hi - lo) / d \<le> real_of_int \<lceil>(hi - lo) / d\<rceil>" by (rule le_of_int_ceiling)
  also have "\<dots> = real (nat \<lceil>(hi - lo) / d\<rceil>)" using c0 by simp
  finally have "hi - lo \<le> d * real (nat \<lceil>(hi - lo) / d\<rceil>)"
    using assms(2) by (simp add: field_simps)
  then show ?thesis by simp
qed

text \<open>Where every float addition of 100 is exact, the elevations are \<open>e + 100 * i\<close>.\<close>

lemma elev_at_exact:
  assumes "\<forall>i<k. fadd (e + 100 * real i) 100 = e + 100 * real (Suc i)"
  shows "i \<le> k \<Longrightarrow> elev_at e i = e + 100 * real i"
proof (induction i)
  case 0
  show ?case by (simp add: elev_at_simps)
next
  case (Suc i)
  then have "elev_at e i = e + 100 * real i" and "i < k" by simp_all
  with assms show ?case by (simp only: elev_at_simps)
qed

text \<open>
  Claim C2, as stated, fails: the last elevation can be below \<open>surfaceAltitudeMax\<close>.
  Between the floats \<^verbatim>\<open>-64.4\<close> and \<^verbatim>\<open>35.6\<close> the float quotient is exactly 1, the
  table has two entries, and the second, the float sum of \<^verbatim>\<open>-64.4\<close> and 100, is
  \<^verbatim>\<open>35.599999999999994\<close>.
\<close>

theorem buildElevation6SCoeffLUT_last_counterexample:
  "py_float (- 644 / 10) \<le> py_float (356 / 10)
   \<and> map Elev (fst (buildElevation6SCoeffLUT toy_solver (1/5)
                      (py_float (- 644 / 10)) (py_float (356 / 10))))
       = [py_float (- 644 / 10), 1252563646362419 / 35184372088832]
   \<and> Elev (last (fst (buildElevation6SCoeffLUT toy_solver (1/5)
                      (py_float (- 644 / 10)) (py_float (356 / 10)))))
       < py_float (356 / 10)"
proof -
  have lo: "py_float (- 644 / 10) = - (2265873562520781 / 35184372088832)"
    by (simp add: float_eval)
  have hi: "py_float (356 / 10) = 5010254585449677 / 140737488355328"
    by (simp add: float_eval)
  have n: "\<lceil>fdiv (fsub (5010254585449677 / 140737488355328)
                    (- (2265873562520781 / 35184372088832))) 100\<rceil> = 1"
    by (simp add: float_eval)
  have s: "fadd (- (2265873562520781 / 35184372088832)) 100
             = 1252563646362419 / 35184372088832"
    by (simp add: float_eval)
  have t: "map Elev (fst (buildElevation6SCoeffLUT toy_solver (1/5)
                      (py_float (- 644 / 10)) (py_float (356 / 10))))
       = [py_float (- 644 / 10), 1252563646362419 / 35184372088832]"
    unfolding lo hi buildElevation6SCoeffLUT_def Let_def n elev_loop_eq
    by (simp add: elev_at_simps s numeral_2_eq_2)
  have l: "Elev (last (fst (buildElevation6SCoeffLUT toy_solver (1/5)
                      (py_float (- 644 / 10)) (py_float (356 / 10)))))
       = 1252563646362419 / 35184372088832"
    unfolding lo hi buildElevation6SCoeffLUT_def Let_def n elev_loop_eq
    by (simp add: elev_at_simps s numeral_2_eq_2)
  show ?thesis unfolding t l unfolding lo hi by simp
qed

text \<open>
  Claim C2, amended. For \<open>surfaceAltitudeMin \<le> surfaceAltitudeMax\<close>,
  \<open>buildElevation6SCoeffLUT\<close> returns \<open>ceil(q) + 1\<close> entries, where \<open>q\<close> is the float
  quotient of the float difference \<open>surfaceAltitudeMax - surfaceAltitudeMin\<close> by 100;
  the first elevation is \<open>surfaceAltitudeMin\<close> and each further one is the float sum of
  the previous one and 100; the solver is called once per entry, in order, with the float
  quotient of the entry's elevation by 1000. Where the float quotient has the ceiling of
  the exact quotient and the float additions are exact, the number of entries is
  \<open>ceil((surfaceAltitudeMax - surfaceAltitudeMin) / 100) + 1\<close>, entry \<open>i\<close> has the
  elevation \<open>surfaceAltitudeMin + 100 * i\<close>, and the last elevation is at least
  \<open>surfaceAltitudeMax\<close>.
\<close>

theorem buildElevation6SCoeffLUT_entries:
  assumes "surfaceAltitudeMin \<le> surfaceAltitudeMax"
    and "lut = fst (buildElevation6SCoeffLUT calc6SCoefficients aotVal
                      surfaceAltitudeMin surfaceAltitudeMax)"
    and "calls = snd (buildElevation6SCoeffLUT calc6SCoefficients aotVal
                      surfaceAltitudeMin surfaceAltitudeMax)"
  shows "length lut = nat \<lceil>fdiv (fsub surfaceAltitudeMax surfaceAltitudeMin) 100\<rceil> + 1
       \<and> Elev (lut ! 0) = surfaceAltitudeMin
       \<and> (\<forall>i. Suc i < length lut \<longrightarrow> Elev (lut ! Suc i) = fadd (Elev (lut ! i)) 100)
       \<and> calls = map (\<lambda>f. (fdiv (Elev f) 1000, aotVal)) lut
       \<and> (\<forall>i<length lut. Coeffs (lut ! i) = calc6SCoefficients (fdiv (Elev (lut ! i)) 1000) aotVal)
       \<and> (\<lceil>fdiv (fsub surfaceAltitudeMax surfaceAltitudeMin) 100\<rceil>
            = \<lceil>(surfaceAltitudeMax - surfaceAltitudeMin) / 100\<rceil>
          \<and> (\<forall>i < nat \<lceil>(surfaceAltitudeMax - surfaceAltitudeMin) / 100\<rceil>.
                fadd (surfaceAltitudeMin + 100 * real i) 100
                  = surfaceAltitudeMin + 100 * real (Suc i))
          \<longrightarrow> length lut = nat \<lceil>(surfaceAltitudeMax - surfaceAltitudeMin) / 100\<rceil> + 1
            \<and> (\<forall>i<length lut. Elev (lut ! i) = surfaceAltitudeMin + 100 * real i)
            \<and> surfaceAltitudeMax \<le> Elev (last lut))"
proof -
  define k where "k = nat \<lceil>fdiv (fsub surfaceAltitudeMax surfaceAltitudeMin) 100\<rceil>"
  have "0 \<le> \<lceil>fdiv (fsub surfaceAltitudeMax surfaceAltitudeMin) 100\<rceil>"
    using assms(1) by (intro float_range_nonneg) simp_all
  then have n: "nat (\<lceil>fdiv (fsub surfaceAltitudeMax surfaceAltitudeMin) 100\<rceil> + 1) = Suc k"
    unfolding k_def by linarith
  have lut: "lut = map (\<lambda>i. ElevLUTFeat (elev_at surfaceAltitudeMin i)
                 (calc6SCoefficients (fdiv (elev_at surfaceAltitudeMin i) 1000) aotVal)) [0..<Suc k]"
    and calls: "calls = map (\<lambda>i. (fdiv (elev_at surfaceAltitudeMin i) 1000, aotVal)) [0..<Suc k]"
    unfolding assms(2,3) buildElevation6SCoeffLUT_def Let_def n elev_loop_eq by simp_all
  have len: "length lut = Suc k" by (simp add: lut)
  have nth: "lut ! i = ElevLUTFeat (elev_at surfaceAltitudeMin i)
                 (calc6SCoefficients (fdiv (elev_at surfaceAltitudeMin i) 1000) aotVal)"
    if "i < Suc k" for i
    unfolding lut using that by (simp only: nth_map_upt add_0 minus_nat.diff_0)
  have last: "last lut = lut ! k"
    using len by (metis diff_Suc_1 last_conv_nth length_0_conv nat.distinct(1))
  have c1: "length lut = nat \<lceil>fdiv (fsub surfaceAltitudeMax surfaceAltitudeMin) 100\<rceil> + 1"
    using len by (simp add: k_def)
  have c2: "Elev (lut ! 0) = surfaceAltitudeMin"
    using nth [of 0] by (simp add: elev_at_simps)
  have c3: "\<forall>i. Suc i < length lut \<longrightarrow> Elev (lut ! Suc i) = fadd (Elev (lut ! i)) 100"
    using len nth by (simp add: elev_at_simps)
  have c4: "calls = map (\<lambda>f. (fdiv (Elev f) 1000, aotVal)) lut"
    unfolding calls lut by simp
  have c5: "\<forall>i<length lut. Coeffs (lut ! i) = calc6SCoefficients (fdiv (Elev (lut ! i)) 1000) aotVal"
    using len nth by simp
  have c6: "length lut = nat \<lceil>(surfaceAltitudeMax - surfaceAltitudeMin) / 100\<rceil> + 1
            \<and> (\<forall>i<length lut. Elev (lut ! i) = surfaceAltitudeMin + 100 * real i)
            \<and> surfaceAltitudeMax \<le> Elev (last lut)"
    if q: "\<lceil>fdiv (fsub surfaceAltitudeMax surfaceAltitudeMin) 100\<rceil>
            = \<lceil>(surfaceAltitudeMax - surfaceAltitudeMin) / 100\<rceil>"
      and ex: "\<forall>i < nat \<lceil>(surfaceAltitudeMax - surfaceAltitudeMin) / 100\<rceil>.
                fadd (surfaceAltitudeMin + 100 * real i) 100
                  = surfaceAltitudeMin + 100 * real (Suc i)"
  proof -
    have k: "k = nat \<lceil>(surfaceAltitudeMax - surfaceAltitudeMin) / 100\<rceil>"
      unfolding k_def q by simp
    have ex': "\<forall>i<k. fadd (surfaceAltitudeMin + 100 * real i) 100
                  = surfaceAltitudeMin + 100 * real (Suc i)"
      using ex unfolding k by simp
    have el: "Elev (lut ! i) = surfaceAltitudeMin + 100 * real i" if "i \<le> k" for i
      using nth [of i] that elev_at_exact [OF ex' that] by simp
    have top: "surfaceAltitudeMax \<le> surfaceAltitudeMin + 100 * real k"
      unfolding k using numSteps_nat [OF assms(1), of 100] by simp
    have "length lut = nat \<lceil>(surfaceAltitudeMax - surfaceAltitudeMin) / 100\<rceil> + 1"
      using len k by simp
    moreover have "\<forall>i<length lut. Elev (lut ! i) = surfaceAltitudeMin + 100 * real i"
      using len el by simp
    moreover have "surfaceAltitudeMax \<le> Elev (last lut)"
      using top el [of k] last by simp
    ultimately show ?thesis by blast
  qed
  from c1 c2 c3 c4 c5 c6 show ?thesis by blast
qed


lemma sums_of_100: "fadd 0 100 = 100" "fadd 100 100 = 200" "fadd 200 100 = 300"
  by (simp_all add: float_eval)

lemma steps_0_250: "\<lceil>fdiv (fsub 250 0) 100\<rceil> = 3"
  by (simp add: float_eval)

lemma km_300: "fdiv 300 1000 = py_float (3/10)"
  by (simp add: float_eval)

theorem buildElevation6SCoeffLUT_entries_witness:
  "(0::real) \<le> 250
   \<and> \<lceil>fdiv (fsub 250 0) 100\<rceil> = \<lceil>(250 - 0) / 100 :: real\<rceil>
   \<and> nat \<lceil>(250 - 0) / 100 :: real\<rceil> = 3
   \<and> fadd 0 100 = 100 \<and> fadd 100 100 = 200 \<and> fadd 200 100 = 300
   \<and> length (fst (buildElevation6SCoeffLUT toy_solver (1/4) 0 250)) = 4
   \<and> Elev (fst (buildElevation6SCoeffLUT toy_solver (1/4) 0 250) ! 3) = 300
   \<and> 250 \<le> Elev (last (fst (buildElevation6SCoeffLUT toy_solver (1/4) 0 250)))
   \<and> Coeffs (fst (buildElevation6SCoeffLUT toy_solver (1/4) 0 250) ! 3) = (py_float (3/10), 1/4)"
proof -
  have h: "(0::real) \<le> 250" by simp
  have qe: "\<lceil>(250 - 0) / 100 :: real\<rceil> = 3" by simp
  have q: "\<lceil>fdiv (fsub 250 0) 100\<rceil> = \<lceil>(250 - 0) / 100 :: real\<rceil>"
    unfolding qe by (rule steps_0_250)
  have ex: "\<forall>i < nat \<lceil>(250 - 0) / 100 :: real\<rceil>.
              fadd (0 + 100 * real i) 100 = 0 + 100 * real (Suc i)"
    unfolding qe by (auto simp add: less_Suc_eq numeral_3_eq_3 sums_of_100)
  note t = buildElevation6SCoeffLUT_entries [OF h refl refl, of toy_solver "1/4"]
  have len: "length (fst (buildElevation6SCoeffLUT toy_solver (1/4) 0 250)) = 4"
    using t by (simp add: steps_0_250)
  have el: "\<forall>i<length (fst (buildElevation6SCoeffLUT toy_solver (1/4) 0 250)).
              Elev (fst (buildElevation6SCoeffLUT toy_solver (1/4) 0 250) ! i) = 0 + 100 * real i"
    and top: "250 \<le> Elev (last (fst (buildElevation6SCoeffLUT toy_solver (1/4) 0 250)))"
    using t q ex by blast+
  have e3: "Elev (fst (buildElevation6SCoeffLUT toy_solver (1/4) 0 250) ! 3) = 300"
    using el len by simp
  have "Coeffs (fst (buildElevation6SCoeffLUT toy_solver (1/4) 0 250) ! 3)
          = toy_solver (fdiv (Elev (fst (buildElevation6SCoeffLUT toy_solver (1/4) 0 250) ! 3)) 1000)
              (1/4)"
    using t len by simp
  then have c3: "Coeffs (fst (buildElevation6SCoeffLUT toy_solver (1/4) 0 250) ! 3)
                   = (py_float (3/10), 1/4)"
    unfolding e3 km_300 by (simp add: toy_solver_def)
  from h q qe sums_of_100 len e3 top c3 show ?thesis by simp
qed

text \<open>
  Between the floats \<^verbatim>\<open>12.2\<close> and \<^verbatim>\<open>512.2\<close> the float quotient is above 5 and the
  table has 7 entries.
\<close>

lemma buildElevation6SCoeffLUT_float_quotient:
  "5 < fdiv (fsub (py_float (5122/10)) (py_float (122/10))) 100
   \<and> length (fst (buildElevation6SCoeffLUT toy_solver (1/4)
                     (py_float (122/10)) (py_float (5122/10)))) = 7"
proof -
  have lo: "py_float (122/10) = 3433994715870003 / 281474976710656"
    and hi: "py_float (5122/10) = 2252679422987469 / 4398046511104"
    by (simp_all add: float_eval)
  have q: "fdiv (fsub (2252679422987469 / 4398046511104) (3433994715870003 / 281474976710656)) 100
             = 5629499534213121 / 1125899906842624"
    by (simp add: float_eval)
  show ?thesis
    unfolding lo hi buildElevation6SCoeffLUT_def Let_def q elev_loop_eq by simp
qed






subsection \<open>Dark object subtraction\<close>

text \<open>The output image applies the expression and the conversion pixel by pixel.\<close>

lemma performDOSOnSingleBand_nth:
  assumes "i < length offsetImage" and "i < length inputTOAImage"
  shows "performDOSOnSingleBand toUInt16 offsetImage inputTOAImage dosOutRefl ! i
         = toUInt16 (performDOSOnSingleBand_expr (inputTOAImage ! i) (offsetImage ! i) dosOutRefl)"
  using assms by (simp add: performDOSOnSingleBand_def bandMath2_def)

lemma performLocalDOSOnSingleBand_nth:
  assumes "i < length offsetImage" and "i < length inputTOAImage"
  shows "performLocalDOSOnSingleBand toUInt16 offsetImage inputTOAImage dosOutRefl ! i
         = toUInt16 (performLocalDOSOnSingleBand_expr (inputTOAImage ! i) (offsetImage ! i)
                       dosOutRefl)"
  using assms by (simp add: performLocalDOSOnSingleBand_def bandMath2_def)

text \<open>
  A pixel at most \<open>offset - dosOutRefl\<close> makes the float sum \<open>(TOA - Off) + dosOutRefl\<close>
  nonpositive: rounding is monotone and keeps the sign.
\<close>

lemma dos_sum_nonpos:
  assumes "is_float dosOutRefl" and "TOA \<le> Off - dosOutRefl"
  shows "fadd (fsub TOA Off) dosOutRefl \<le> 0"
proof -
  have "TOA - Off \<le> - dosOutRefl" using assms(2) by simp
  then have "rnd (TOA - Off) \<le> rnd (- dosOutRefl)" by (rule rnd_mono)
  then have "fsub TOA Off \<le> - dosOutRefl"
    using assms(1) by (simp add: fsub_def rnd_minus is_float_def)
  then have "fsub TOA Off + dosOutRefl \<le> 0" by simp
  then show ?thesis unfolding fadd_def by (rule rnd_nonpos)
qed

lemma round_saturate_uint16_values:
  "round_saturate_uint16 0 = 0" "round_saturate_uint16 1 = 1"
  by (simp_all add: round_saturate_uint16_def)

lemma float_20: "is_float 20"
  by (simp add: is_float_def float_eval)

text \<open>
  Claim C1, as stated, fails: a nonzero pixel below \<open>offset - dosOutRefl\<close> is written
  as the constant 1.0 of the expression, not as \<open>dosOutRefl\<close>. With an offset of 100
  and \<open>dosOutRefl = 20\<close> the pixel 10 comes out as 1.
\<close>

theorem dos_floor_counterexample:
  "(10::real) < 100 - 20
   \<and> performDOSOnSingleBand_expr 10 100 20 = 1
   \<and> performLocalDOSOnSingleBand_expr 10 100 20 = 1
   \<and> performDOSOnSingleBand round_saturate_uint16 [100] [10] 20 = [1]
   \<and> performLocalDOSOnSingleBand round_saturate_uint16 [100] [10] 20 = [1]
   \<and> round_saturate_uint16 20 = 20"
proof -
  have e: "performDOSOnSingleBand_expr 10 100 20 = 1"
    "performLocalDOSOnSingleBand_expr 10 100 20 = 1"
    by (simp_all add: performDOSOnSingleBand_expr_def performLocalDOSOnSingleBand_expr_def
        float_eval)
  have i: "performDOSOnSingleBand round_saturate_uint16 [100] [10] 20
             = [round_saturate_uint16 (performDOSOnSingleBand_expr 10 100 20)]"
    "performLocalDOSOnSingleBand round_saturate_uint16 [100] [10] 20
             = [round_saturate_uint16 (performLocalDOSOnSingleBand_expr 10 100 20)]"
    by (simp_all add: performDOSOnSingleBand_def performLocalDOSOnSingleBand_def bandMath2_def)
  show ?thesis unfolding i e by (simp add: round_saturate_uint16_def)
qed

text \<open>
  Claim C1, amended. In the images written by \<open>performDOSOnSingleBand\<close> and
  \<open>performLocalDOSOnSingleBand\<close>, for a conversion to 16 bit that keeps 0 and 1 and a
  float \<open>dosOutRefl\<close>: a pixel whose TOA value is 0 is 0 whatever the offset, and a
  nonzero pixel whose TOA value is at most \<open>offset - dosOutRefl\<close> is 1, the conversion
  of the constant 1.0 written in the expression, not \<open>dosOutRefl\<close>.
\<close>

theorem dos_subtraction_cases:
  assumes "toUInt16 0 = 0" and "toUInt16 1 = 1" and "is_float dosOutRefl"
    and "i < length offsetImage" and "i < length inputTOAImage"
    and "TOA = inputTOAImage ! i" and "Off = offsetImage ! i"
  shows "(TOA = 0 \<longrightarrow>
            performDOSOnSingleBand toUInt16 offsetImage inputTOAImage dosOutRefl ! i = 0
          \<and> performLocalDOSOnSingleBand toUInt16 offsetImage inputTOAImage dosOutRefl ! i = 0)
       \<and> (TOA \<noteq> 0 \<and> TOA \<le> Off - dosOutRefl \<longrightarrow>
            performDOSOnSingleBand_expr TOA Off dosOutRefl = 1
          \<and> performLocalDOSOnSingleBand_expr TOA Off dosOutRefl = 1
          \<and> performDOSOnSingleBand toUInt16 offsetImage inputTOAImage dosOutRefl ! i = 1
          \<and> performLocalDOSOnSingleBand toUInt16 offsetImage inputTOAImage dosOutRefl ! i = 1)"
proof -
  have zero: "performDOSOnSingleBand_expr 0 Off dosOutRefl = 0"
    "performLocalDOSOnSingleBand_expr 0 Off dosOutRefl = 0"
    by (simp_all add: performDOSOnSingleBand_expr_def performLocalDOSOnSingleBand_expr_def)
  have low: "performDOSOnSingleBand_expr TOA Off dosOutRefl = 1"
    "performLocalDOSOnSingleBand_expr TOA Off dosOutRefl = 1"
    if "TOA \<noteq> 0" and "TOA \<le> Off - dosOutRefl"
    using that dos_sum_nonpos [OF assms(3) that(2)]
    by (simp_all add: performDOSOnSingleBand_expr_def performLocalDOSOnSingleBand_expr_def)
  show ?thesis
    unfolding performDOSOnSingleBand_nth [OF assms(4,5)]
      performLocalDOSOnSingleBand_nth [OF assms(4,5)] assms(6,7) [symmetric]
    using zero low assms(1,2) by auto
qed

theorem dos_subtraction_cases_witness:
  "round_saturate_uint16 0 = 0 \<and> round_saturate_uint16 1 = 1 \<and> is_float 20
   \<and> (1::nat) < length [100, 100, 100 :: real] \<and> (1::nat) < length [0, 10, 150 :: real]
   \<and> ([0, 10, 150 :: real] ! 1 \<noteq> 0 \<and> [0, 10, 150 :: real] ! 1 \<le> [100, 100, 100] ! 1 - 20)
   \<and> performDOSOnSingleBand round_saturate_uint16 [100, 100, 100] [0, 10, 150] 20 ! 1 = 1
   \<and> performLocalDOSOnSingleBand round_saturate_uint16 [100, 100, 100] [0, 10, 150] 20 ! 1 = 1
   \<and> [0, 10, 150 :: real] ! 0 = 0
   \<and> performDOSOnSingleBand round_saturate_uint16 [100, 100, 100] [0, 10, 150] 20 ! 0 = 0
   \<and> performLocalDOSOnSingleBand round_saturate_uint16 [100, 100, 100] [0, 10, 150] 20 ! 0 = 0"
proof -
  have l1: "(1::nat) < length [100, 100, 100 :: real]"
    and l2: "(1::nat) < length [0, 10, 150 :: real]"
    and l3: "(0::nat) < length [100, 100, 100 :: real]"
    and l4: "(0::nat) < length [0, 10, 150 :: real]" by simp_all
  show ?thesis
    using dos_subtraction_cases [OF round_saturate_uint16_values float_20 l1 l2 refl refl]
      dos_subtraction_cases [OF round_saturate_uint16_values float_20 l3 l4 refl refl]
      round_saturate_uint16_values float_20
    by simp
qed

subsection \<open>The AOT candidate search\<close>

lemma aot_search_invariant:
  "\<exists>k\<le>m. minAOT (fold (aot_search_step f a) [0..<Suc m] s0) = aot_candidate a k
        \<and> minDist (fold (aot_search_step f a) [0..<Suc m] s0) = f (aot_candidate a k)
        \<and> (\<forall>j\<le>m. f (aot_candidate a k) \<le> f (aot_candidate a j))
        \<and> (\<forall>j<k. f (aot_candidate a k) < f (aot_candidate a j))"
proof (induction m)
  case 0
  show ?case by (simp add: aot_search_step_def)
next
  case (Suc m)
  define s where "s = fold (aot_search_step f a) [0..<Suc m] s0"
  from Suc.IH obtain k where k: "k \<le> m"
    and ma: "minAOT s = aot_candidate a k"
    and md: "minDist s = f (aot_candidate a k)"
    and le: "\<forall>j\<le>m. f (aot_candidate a k) \<le> f (aot_candidate a j)"
    and lt: "\<forall>j<k. f (aot_candidate a k) < f (aot_candidate a j)"
    unfolding s_def by blast
  have step: "fold (aot_search_step f a) [0..<Suc (Suc m)] s0 = aot_search_step f a (Suc m) s"
    unfolding s_def by simp
  show ?case
  proof (cases "f (aot_candidate a (Suc m)) < f (aot_candidate a k)")
    case True
    have new: "minAOT (aot_search_step f a (Suc m) s) = aot_candidate a (Suc m)"
      "minDist (aot_search_step f a (Suc m) s) = f (aot_candidate a (Suc m))"
      using True md by (simp_all add: aot_search_step_def Let_def)
    have "\<forall>j\<le>Suc m. f (aot_candidate a (Suc m)) \<le> f (aot_candidate a j)"
    proof (intro allI impI)
      fix j assume "j \<le> Suc m"
      show "f (aot_candidate a (Suc m)) \<le> f (aot_candidate a j)"
      proof (cases "j = Suc m")
        case True then show ?thesis by simp
      next
        case False
        with \<open>j \<le> Suc m\<close> have "j \<le> m" by simp
        with le have "f (aot_candidate a k) \<le> f (aot_candidate a j)" by blast
        with True show ?thesis by linarith
      qed
    qed
    moreover have "\<forall>j<Suc m. f (aot_candidate a (Suc m)) < f (aot_candidate a j)"
    proof (intro allI impI)
      fix j assume "j < Suc m"
      then have "j \<le> m" by simp
      with le have "f (aot_candidate a k) \<le> f (aot_candidate a j)" by blast
      with True show "f (aot_candidate a (Suc m)) < f (aot_candidate a j)" by linarith
    qed
    ultimately show ?thesis
      unfolding step using new by (intro exI [of _ "Suc m"]) simp
  next
    case False
    have old: "minAOT (aot_search_step f a (Suc m) s) = aot_candidate a k"
      "minDist (aot_search_step f a (Suc m) s) = f (aot_candidate a k)"
      using False ma md by (simp_all add: aot_search_step_def Let_def)
    have "\<forall>j\<le>Suc m. f (aot_candidate a k) \<le> f (aot_candidate a j)"
    proof (intro allI impI)
      fix j assume "j \<le> Suc m"
      show "f (aot_candidate a k) \<le> f (aot_candidate a j)"
      proof (cases "j = Suc m")
        case True with False show ?thesis by simp
      next
        case F: False
        with \<open>j \<le> Suc m\<close> have "j \<le> m" by simp
        with le show ?thesis by blast
      qed
    qed
    then show ?thesis
      unfolding step using old lt k by (intro exI [of _ k]) simp
  qed
qed

text \<open>Candidate 0 is the float sum of the minimum and zero, the minimum itself rounded.\<close>

lemma aot_candidate_0: "aot_candidate a 0 = rnd a"
  by (simp add: aot_candidate_def float_of_int_def fmul_def fadd_def rnd_def)

lemma numAOTValTests_equal_bounds: "numAOTValTests a a = 1"
  by (simp add: numAOTValTests_def fsub_def fdiv_def rnd_def)

text \<open>
  Claim C4. The claim asks for an error whenever the range has fewer than two steps. With
  \<open>aotValMin = aotValMax\<close> there is one candidate only, and the code returns it
  instead of raising: the result is \<open>aotValMin + 0.05 * 0\<close>, which for a float
  \<open>aotValMin\<close> is \<open>aotValMin\<close> itself.
\<close>

theorem aot_range_check_equal_bounds:
  "numAOTValTests a a = 1
   \<and> estimateSingleAOTFromDOSBandImpl run6SToOptimiseAODValue a a = Inr (rnd a)
   \<and> (is_float a \<longrightarrow> estimateSingleAOTFromDOSBandImpl run6SToOptimiseAODValue a a = Inr a)"
  by (simp add: numAOTValTests_equal_bounds estimateSingleAOTFromDOSBandImpl_def
      aot_search_step_def aot_candidate_0 is_float_def)

lemma float_half: "is_float (1/2)"
  by (simp add: is_float_def float_eval)

theorem aot_range_check_equal_bounds_witness:
  "is_float (1/2) \<and> numAOTValTests (1/2) (1/2) = 1
   \<and> estimateSingleAOTFromDOSBandImpl flat_objective (1/2) (1/2) = Inr (1/2)"
  using aot_range_check_equal_bounds [of "1/2" flat_objective] float_half by blast

text \<open>
  The check raises exactly when the float quotient of the range by \<^verbatim>\<open>0.05\<close> is at
  most -1.
\<close>

lemma aot_raises_iff:
  "(\<exists>e. estimateSingleAOTFromDOSBandImpl f lo hi = Inl e)
   \<longleftrightarrow> fdiv (fsub hi lo) (py_float 0.05) \<le> - 1"
proof -
  have "(\<lceil>fdiv (fsub hi lo) (py_float 0.05)\<rceil> + 1 < 1)
          = (fdiv (fsub hi lo) (py_float 0.05) \<le> - 1)"
    by (simp add: ceiling_le_iff ceiling_less_iff)
  then show ?thesis
    by (auto simp add: estimateSingleAOTFromDOSBandImpl_def numAOTValTests_def Let_def not_le)
qed

text \<open>
  Claim C7. When the search runs, candidate \<open>j\<close> is the float \<open>aotValMin + 0.05 * j\<close>
  (\<open>aot_candidate\<close>), the value returned is a candidate whose discrepancy is least among
  all candidates, and every earlier candidate has a strictly larger discrepancy: of
  several minima the first is returned.
\<close>

theorem aot_search_first_minimum:
  assumes "1 \<le> numAOTValTests aotValMin aotValMax"
  shows "\<exists>k < nat (numAOTValTests aotValMin aotValMax).
           estimateSingleAOTFromDOSBandImpl run6SToOptimiseAODValue aotValMin aotValMax
             = Inr (fadd aotValMin (fmul (py_float 0.05) (float_of_int (int k))))
         \<and> (\<forall>j < nat (numAOTValTests aotValMin aotValMax).
               run6SToOptimiseAODValue (aot_candidate aotValMin k)
                 \<le> run6SToOptimiseAODValue (aot_candidate aotValMin j))
         \<and> (\<forall>j < k. run6SToOptimiseAODValue (aot_candidate aotValMin k)
                 < run6SToOptimiseAODValue (aot_candidate aotValMin j))"
proof -
  from assms obtain m where m: "nat (numAOTValTests aotValMin aotValMax) = Suc m"
    by (cases "nat (numAOTValTests aotValMin aotValMax)") simp_all
  have res: "estimateSingleAOTFromDOSBandImpl run6SToOptimiseAODValue aotValMin aotValMax
      = Inr (minAOT (fold (aot_search_step run6SToOptimiseAODValue aotValMin) [0..<Suc m]
               \<lparr>cAOT = aotValMin, cDist = 0, minAOT = 0, minDist = 0\<rparr>))"
    using assms m by (simp add: estimateSingleAOTFromDOSBandImpl_def Let_def)
  from aot_search_invariant [of m run6SToOptimiseAODValue aotValMin
      "\<lparr>cAOT = aotValMin, cDist = 0, minAOT = 0, minDist = 0\<rparr>"]
  obtain k where "k \<le> m"
    and "minAOT (fold (aot_search_step run6SToOptimiseAODValue aotValMin) [0..<Suc m]
               \<lparr>cAOT = aotValMin, cDist = 0, minAOT = 0, minDist = 0\<rparr>) = aot_candidate aotValMin k"
    and "\<forall>j\<le>m. run6SToOptimiseAODValue (aot_candidate aotValMin k)
                 \<le> run6SToOptimiseAODValue (aot_candidate aotValMin j)"
    and "\<forall>j<k. run6SToOptimiseAODValue (aot_candidate aotValMin k)
                 < run6SToOptimiseAODValue (aot_candidate aotValMin j)"
    by blast
  then show ?thesis
    unfolding m res by (intro exI [of _ k]) (simp add: less_Suc_eq_le aot_candidate_def)
qed

lemma tests_01_03: "numAOTValTests (py_float (1/10)) (py_float (3/10)) = 5"
  by (simp add: numAOTValTests_def float_eval)

lemma candidates_01:
  "aot_candidate (py_float (1/10)) 0 = py_float (1/10)"
  "aot_candidate (py_float (1/10)) 2 = py_float (2/10)"
  by (simp_all add: aot_candidate_def float_eval)

theorem aot_search_first_minimum_witness:
  "1 \<le> numAOTValTests (py_float (1/10)) (py_float (3/10))
   \<and> nat (numAOTValTests (py_float (1/10)) (py_float (3/10))) = 5
   \<and> estimateSingleAOTFromDOSBandImpl flat_objective (py_float (1/10)) (py_float (3/10))
       = Inr (py_float (1/10))
   \<and> estimateSingleAOTFromDOSBandImpl vee_objective (py_float (1/10)) (py_float (3/10))
       = Inr (py_float (2/10))"
proof -
  note n = tests_01_03
  then have h: "1 \<le> numAOTValTests (py_float (1/10)) (py_float (3/10))" by simp
  from aot_search_first_minimum [OF h, of flat_objective]
  obtain k where "estimateSingleAOTFromDOSBandImpl flat_objective (py_float (1/10)) (py_float (3/10))
             = Inr (aot_candidate (py_float (1/10)) k)"
    and "\<forall>j < k. flat_objective (aot_candidate (py_float (1/10)) k)
                 < flat_objective (aot_candidate (py_float (1/10)) j)"
    unfolding aot_candidate_def by blast
  moreover from this(2) have "k = 0" by (cases k) (auto simp add: flat_objective_def)
  ultimately have flat: "estimateSingleAOTFromDOSBandImpl flat_objective (py_float (1/10))
                           (py_float (3/10)) = Inr (py_float (1/10))"
    by (simp add: candidates_01)
  from aot_search_first_minimum [OF h, of vee_objective]
  obtain i where r: "estimateSingleAOTFromDOSBandImpl vee_objective (py_float (1/10)) (py_float (3/10))
             = Inr (aot_candidate (py_float (1/10)) i)"
    and le: "\<forall>j < nat (numAOTValTests (py_float (1/10)) (py_float (3/10))).
               vee_objective (aot_candidate (py_float (1/10)) i)
                 \<le> vee_objective (aot_candidate (py_float (1/10)) j)"
    unfolding aot_candidate_def by blast
  have "(2::nat) < nat (numAOTValTests (py_float (1/10)) (py_float (3/10)))" using n by simp
  with le have "vee_objective (aot_candidate (py_float (1/10)) i)
                  \<le> vee_objective (aot_candidate (py_float (1/10)) 2)"
    by blast
  then have "aot_candidate (py_float (1/10)) i = py_float (2/10)"
    unfolding candidates_01 by (simp add: vee_objective_def)
  with r have vee: "estimateSingleAOTFromDOSBandImpl vee_objective (py_float (1/10))
                      (py_float (3/10)) = Inr (py_float (2/10))"
    by simp
  show ?thesis using n h flat vee by simp
qed

text \<open>
  Between the floats \<^verbatim>\<open>0.05\<close> and \<^verbatim>\<open>0.2\<close> the float quotient is above 3: the search
  tries 5 candidates, and a decreasing objective selects the last one, \<^verbatim>\<open>0.25\<close>. Between
  \<^verbatim>\<open>0.5\<close> and \<^verbatim>\<open>0.45\<close> the float quotient is above -1 and the check lets the search
  run.
\<close>

lemma aot_search_float_quotient:
  "3 < fdiv (fsub (py_float (2/10)) (py_float 0.05)) (py_float 0.05)
   \<and> numAOTValTests (py_float 0.05) (py_float (2/10)) = 5
   \<and> estimateSingleAOTFromDOSBandImpl falling_objective (py_float 0.05) (py_float (2/10))
       = Inr (1/4)
   \<and> - 1 < fdiv (fsub (py_float (45/100)) (py_float (1/2))) (py_float 0.05)
   \<and> numAOTValTests (py_float (1/2)) (py_float (45/100)) = 1
   \<and> estimateSingleAOTFromDOSBandImpl flat_objective (py_float (1/2)) (py_float (45/100))
       = Inr (1/2)"
proof -
  define lo :: real where "lo = py_float 0.05"
  define hi :: real where "hi = py_float (2/10)"
  define lo' :: real where "lo' = py_float (1/2)"
  define hi' :: real where "hi' = py_float (45/100)"
  have q: "fdiv (fsub hi lo) (py_float 0.05) = 6755399441055745 / 2251799813685248"
    unfolding lo_def hi_def by (simp add: float_eval)
  have n: "numAOTValTests lo hi = 5"
    unfolding numAOTValTests_def q by simp
  have c: "aot_candidate lo 0 = 3602879701896397 / 72057594037927936"
    "aot_candidate lo (Suc 0) = 3602879701896397 / 36028797018963968"
    "aot_candidate lo 2 = 1351079888211149 / 9007199254740992"
    "aot_candidate lo 3 = 3602879701896397 / 18014398509481984"
    "aot_candidate lo 4 = 1 / 4"
    unfolding lo_def by (simp_all add: aot_candidate_def float_eval)
  have u: "[0..<5] = [0, Suc 0, 2, 3, 4::nat]"
    by (simp add: upt_rec)
  have r: "estimateSingleAOTFromDOSBandImpl falling_objective lo hi = Inr (1/4)"
    unfolding estimateSingleAOTFromDOSBandImpl_def Let_def n
    by (simp add: u aot_search_step_def c falling_objective_def Let_def)
  have q2: "fdiv (fsub hi' lo') (py_float 0.05) = - (4503599627370495 / 4503599627370496)"
    unfolding lo'_def hi'_def by (simp add: float_eval)
  have n2: "numAOTValTests lo' hi' = 1"
    unfolding numAOTValTests_def q2 by simp
  have c2: "aot_candidate lo' 0 = 1/2"
    unfolding lo'_def by (simp add: aot_candidate_def float_eval)
  have r2: "estimateSingleAOTFromDOSBandImpl flat_objective lo' hi' = Inr (1/2)"
    unfolding estimateSingleAOTFromDOSBandImpl_def Let_def n2
    by (simp add: aot_search_step_def c2 Let_def)
  show ?thesis
    unfolding lo_def [symmetric] hi_def [symmetric] lo'_def [symmetric] hi'_def [symmetric]
    using q q2 n n2 r r2 unfolding lo_def by simp
qed

subsection \<open>The retry loop of calcDarkTargetOffsetsForBand\<close>

lemma doubled_shift: "doubled k (fmul p 2) = doubled (Suc k) p"
  using funpow_swap1 [of "\<lambda>p. fmul p 2" k p] by (simp add: doubled_def)

lemma doubled_0: "doubled 0 p = p"
  by (simp add: doubled_def)

text \<open>If the loop returns, some doubling of the percentile gave more than 10 rows.\<close>

lemma findTargets_Some_imp:
  assumes "calcDarkTargetOffsetsForBand_findTargets c h w p = Some y"
  shows "\<exists>k. 10 < c (darkPxlThreshold h w (doubled k p))"
proof (rule calcDarkTargetOffsetsForBand_findTargets.raw_induct
    [where P = "\<lambda>c h w p y. \<exists>k. 10 < c (darkPxlThreshold h w (doubled k p))", OF _ assms])
  fix f :: "(real \<Rightarrow> nat) \<Rightarrow> nat list \<Rightarrow> real \<Rightarrow> real \<Rightarrow> (real \<times> real) option"
  fix c h w p y
  assume IH: "\<And>c h w p y. f c h w p = Some y \<Longrightarrow>
                \<exists>k. 10 < c (darkPxlThreshold h w (doubled k p))"
    and body: "(if 10 < c (darkPxlThreshold h w p) then Some (p, darkPxlThreshold h w p)
                else f c h w (fmul p 2)) = Some y"
  show "\<exists>k. 10 < c (darkPxlThreshold h w (doubled k p))"
  proof (cases "10 < c (darkPxlThreshold h w p)")
    case True
    then have "10 < c (darkPxlThreshold h w (doubled 0 p))" by (simp only: doubled_0)
    then show ?thesis by blast
  next
    case False
    with body have "f c h w (fmul p 2) = Some y" by simp
    from IH [OF this] obtain k where "10 < c (darkPxlThreshold h w (doubled k (fmul p 2)))"
      by blast
    then have "10 < c (darkPxlThreshold h w (doubled (Suc k) p))" by (simp only: doubled_shift)
    then show ?thesis by blast
  qed
qed

text \<open>If some doubling of the percentile gives more than 10 rows, the loop returns.\<close>

lemma findTargets_returns:
  "10 < c (darkPxlThreshold h w (doubled k p)) \<Longrightarrow>
   \<exists>y. calcDarkTargetOffsetsForBand_findTargets c h w p = Some y"
proof (induction k arbitrary: p)
  case 0
  then have "10 < c (darkPxlThreshold h w p)" by (simp only: doubled_0)
  then show ?case by (subst calcDarkTargetOffsetsForBand_findTargets.simps) simp
next
  case (Suc k)
  then have "10 < c (darkPxlThreshold h w (doubled k (fmul p 2)))" by (simp only: doubled_shift)
  from Suc.IH [OF this] obtain y where
    "calcDarkTargetOffsetsForBand_findTargets c h w (fmul p 2) = Some y" by blast
  then show ?case by (subst calcDarkTargetOffsetsForBand_findTargets.simps) simp
qed

text \<open>
  Claim C5, as stated, fails: the loop has no retry cap. For a band whose dark pixels form
  a single object at every threshold, the count never exceeds 10 and the loop never
  returns.
\<close>

theorem findTargets_never_returns_counterexample:
  "calcDarkTargetOffsetsForBand_findTargets one_dark_object [100] 1 (py_float (1/100)) = None"
proof (cases "calcDarkTargetOffsetsForBand_findTargets one_dark_object [100] 1
                (py_float (1/100))")
  case None
  then show ?thesis .
next
  case (Some y)
  from findTargets_Some_imp [OF this] show ?thesis by (simp add: one_dark_object_def)
qed

text \<open>
  Claim C5, amended. The loop returns exactly when, after some number \<open>k\<close> of
  doublings of the percentile, the table of dark objects has more than 10 rows; otherwise
  it never returns.
\<close>

theorem findTargets_returns_iff:
  "(\<exists>y. calcDarkTargetOffsetsForBand_findTargets darkObjsHistogramSize bandHist histBinWidth
            darkPxlPercentile = Some y)
   \<longleftrightarrow> (\<exists>k. 10 < darkObjsHistogramSize
                  (darkPxlThreshold bandHist histBinWidth (doubled k darkPxlPercentile)))"
  using findTargets_Some_imp findTargets_returns by blast

lemma doubled_quarter: "doubled 2 (1/4) = 1"
  by (simp add: doubled_def numeral_2_eq_2 float_eval)

lemma threshold_four_bins: "darkPxlThreshold [10, 10, 10, 10] 1 1 = 3"
  by (simp add: darkPxlThreshold_def float_eval)

theorem findTargets_returns_iff_witness:
  "10 < objects_from_3 (darkPxlThreshold [10, 10, 10, 10] 1 (doubled 2 (1/4)))
   \<and> (\<exists>y. calcDarkTargetOffsetsForBand_findTargets objects_from_3 [10, 10, 10, 10] 1 (1/4)
            = Some y)"
proof -
  have h: "10 < objects_from_3 (darkPxlThreshold [10, 10, 10, 10] 1 (doubled 2 (1/4)))"
    unfolding doubled_quarter threshold_four_bins by (simp add: objects_from_3_def)
  then have "\<exists>k. 10 < objects_from_3 (darkPxlThreshold [10, 10, 10, 10] 1 (doubled k (1/4)))"
    by blast
  with findTargets_returns_iff [of objects_from_3 "[10, 10, 10, 10]" 1 "1/4"] h
  show ?thesis by blast
qed

text \<open>
  The product of the pixel count and the percentile is a float product: for 100 pixels
  and the float \<^verbatim>\<open>0.07\<close> it is above 7, so that a first bin of 7 pixels does not reach
  it, the threshold is 1, and the loop returns in its first pass.
\<close>

lemma darkPxlThreshold_float_product:
  "7 < fmul 100 (py_float (7/100))
   \<and> darkPxlThreshold [7, 1, 92] 1 (py_float (7/100)) = 1
   \<and> calcDarkTargetOffsetsForBand_findTargets objects_at_1 [7, 1, 92] 1 (py_float (7/100))
       = Some (py_float (7/100), 1)"
proof -
  have p: "py_float (7/100) = 1261007895663739 / 18014398509481984"
    by (simp add: float_eval)
  have m: "7 < fmul 100 (1261007895663739 / 18014398509481984)"
    by (simp add: float_eval)
  have t: "darkPxlThreshold [7, 1, 92] 1 (1261007895663739 / 18014398509481984) = 1"
    by (simp add: darkPxlThreshold_def float_eval)
  show ?thesis
    unfolding p using m t
    by (subst calcDarkTargetOffsetsForBand_findTargets.simps) (simp add: objects_at_1_def)
qed

subsection \<open>defaultGenBaseOutFileName\<close>

lemma str_nat_values:
  "str_nat 2001 = ''2001''" "str_nat 6 = ''6''" "str_nat 15 = ''15''"
  "str_nat 10 = ''10''" "str_nat 69 = ''69''" "str_nat 9 = ''9''"
  by (simp_all add: str_nat.simps digit_char_def)

lemma round_values:
  "py_round (19/2) = 10" "py_round2 (- (139/2)) = - 6950" "py_round2 (19/2) = 950"
  by (simp_all add: py_round_def py_round2_def Let_def)

text \<open>
  Claim C6. For latCentre 9.5, lonCentre -69.5 and the date 2001-06-15 the name contains
  20010615, but its position token is \<open>lat10lon695\<close>: the latitude is rounded to an
  integer, not to two decimal places, which would give \<open>lat95lon695\<close>.
\<close>

theorem defaultGenBaseOutFileName_lat_rounded_to_integer:
  "defaultGenBaseOutFileName scene_100_95 = ''LS1MSS_20010615_lat10lon695''
   \<and> spec_position_token (latCentre scene_100_95) (lonCentre scene_100_95) = ''lat95lon695''"
  by (simp add: defaultGenBaseOutFileName_def spec_position_token_def scene_100_95_def
        strftime_Ymd_def zfill_def str_int_def str_hundredths_def replace_by_empty_def
        round_values str_nat_values digit_char_def Let_def)

subsection \<open>interpolateImageFromPointData\<close>






end
